theory Spec2Isabelle
  imports Main
begin

section \<open>The weather ingestion pipeline (data\_ingestion.py)\<close>

text \<open>
  The module chains three external services (the Nominatim geocoder, the Open-Meteo
  weather provider, a Snowflake warehouse) with the local file system. The embedding
  makes every effect explicit: a function takes the environment (the external
  collaborators, as oracles that see the history of events so far) and the state (the
  event history and the files), and returns a result, \<open>Inl\<close> for a raised exception,
  together with the new state.

  Floating-point values (coordinates and hourly variables) are never computed with by
  the module; they are carried as values of a type parameter \<open>'f\<close>.

  Outside the model: what the module prints; the HTTP cache and the retries of the
  session that \<open>_get_client\<close> builds, which belong to the transport (a call answers or
  raises); failures of the local file system other than removing a file that is not
  there; the range of pandas' timestamps.
\<close>

subsection \<open>Data model\<close>

text \<open>A location is a (city, state) tuple or a free-form string.\<close>

datatype location = LocTuple string string | LocStr string

definition LOCATIONS :: "location list" where
  "LOCATIONS =
     [LocTuple ''Atlanta'' ''Georgia'',
      LocTuple ''New York'' ''New York'',
      LocTuple ''Washington'' ''DC'',
      LocTuple ''San Francisco'' ''CA'',
      LocStr ''Daniel Boone National Forest, USA'']"

text \<open>
  Exceptions. The module defines no exception class of its own: what it raises are the
  built-in exceptions of the operations it uses, and whatever an external call raises
  (\<open>External\<close>, with the class name).
\<close>

datatype error =
    IndexError | KeyError | ValueError | ZeroDivisionError | FileNotFoundError
  | External string

fun class_name :: "error \<Rightarrow> string" where
  "class_name IndexError = ''IndexError''"
| "class_name KeyError = ''KeyError''"
| "class_name ValueError = ''ValueError''"
| "class_name ZeroDivisionError = ''ZeroDivisionError''"
| "class_name FileNotFoundError = ''FileNotFoundError''"
| "class_name (External n) = n"

text \<open>Request parameters: a dict, in insertion order.\<close>

datatype 'f pvalue = PStr string | PInt int | PStrs "string list" | PFloats "'f list"

type_synonym 'f params = "(string \<times> 'f pvalue) list"

text \<open>A candidate of the geocoder's answer: its \<open>boundingbox\<close> field, when present.\<close>

record candidate =
  boundingbox :: "string list option"

record bbox =
  south_lat :: string
  north_lat :: string
  west_lon :: string
  east_lon :: string

text \<open>
  A per-point response of the weather provider, with the accessors the module calls.
  \<open>Variables h i\<close> stands for \<open>hourly.Variables(i).ValuesAsNumpy()\<close>.
\<close>

record 'f hourly =
  Time :: int
  TimeEnd :: int
  Interval :: int
  Variables :: "nat \<Rightarrow> 'f list"

record 'f response =
  Latitude :: 'f
  Longitude :: 'f
  Hourly :: "'f hourly"

text \<open>A row of a DataFrame built by \<open>parse_responses\<close>; a DataFrame is its rows.\<close>

record 'f row =
  timestamp :: int
  location :: string
  latitude :: 'f
  longitude :: 'f
  temperature_2m :: 'f
  is_day :: 'f
  precipitation_probability :: 'f
  precipitation :: 'f

type_synonym 'f dataframe = "'f row list"

text \<open>A line of the NDJSON file: one JSON object, its keys in order.\<close>

datatype 'f jvalue = JStr string | JNum 'f

type_synonym 'f json_obj = "(string \<times> 'f jvalue) list"

text \<open>The fields of \<open>datetime.now(timezone.utc)\<close>.\<close>

record datetime =
  year :: nat
  month :: nat
  day :: nat
  hour :: nat
  minute :: nat
  second :: nat
  microsecond :: nat

subsection \<open>Effects\<close>

datatype sf_call = Connect | Cursor | Execute string | CursorClose | Close

datatype 'f event =
    HttpGet string "'f params"
  | WeatherApi string "'f params"
  | Snowflake sf_call
  | FileWrite string
  | FileRemove string

record 'f state =
  trace :: "'f event list"
  files :: "string \<rightharpoonup> 'f json_obj list"

text \<open>
  The external collaborators. Each oracle sees the events so far, so that two calls
  with the same arguments may answer differently. \<open>astype_str\<close> is pandas' rendering
  of a UTC timestamp as a string.
\<close>

record 'f env =
  requests_get :: "'f event list \<Rightarrow> string \<Rightarrow> 'f params \<Rightarrow> error + candidate list"
  weather_api :: "'f event list \<Rightarrow> string \<Rightarrow> 'f params \<Rightarrow> error + 'f response list"
  snowflake :: "'f event list \<Rightarrow> sf_call \<Rightarrow> error option"
  utcnow :: "'f event list \<Rightarrow> datetime"
  gettempdir :: string
  astype_str :: "int \<Rightarrow> string"

definition emit :: "'f event \<Rightarrow> 'f state \<Rightarrow> 'f state" where
  "emit ev s = s\<lparr>trace := trace s @ [ev]\<rparr>"

subsection \<open>get\_bbox\<close>

definition nominatim_url :: string where
  "nominatim_url = ''https://nominatim.openstreetmap.org/search''"

definition get_bbox_params :: "location \<Rightarrow> 'f params" where
  "get_bbox_params loc =
     (case loc of
        LocTuple city st \<Rightarrow>
          [(''city'', PStr city), (''state'', PStr st), (''format'', PStr ''json''),
           (''limit'', PInt 1)]
      | LocStr q \<Rightarrow> [(''q'', PStr q), (''format'', PStr ''json''), (''limit'', PInt 1)])"

definition get_bbox :: "'f env \<Rightarrow> 'f state \<Rightarrow> location \<Rightarrow> (error + bbox) \<times> 'f state" where
  "get_bbox env s loc =
     (let params = get_bbox_params loc;
          s1 = emit (HttpGet nominatim_url params) s
      in case requests_get env (trace s) nominatim_url params of
           Inl e \<Rightarrow> (Inl e, s1)
         | Inr [] \<Rightarrow> (Inl IndexError, s1)
         | Inr (result # _) \<Rightarrow>
             (case boundingbox result of
                None \<Rightarrow> (Inl KeyError, s1)
              | Some bb \<Rightarrow>
                  if length bb < 4 then (Inl IndexError, s1)
                  else (Inr \<lparr>south_lat = bb ! 0, north_lat = bb ! 1,
                             west_lon = bb ! 2, east_lon = bb ! 3\<rparr>, s1)))"

subsection \<open>get\_grid\_points and get\_weather\<close>

definition forecast_url :: string where
  "forecast_url = ''https://api.open-meteo.com/v1/forecast''"

definition grid_params :: "bbox \<Rightarrow> 'f params" where
  "grid_params box =
     [(''bounding_box'',
        PStr (south_lat box @ '','' @ west_lon box @ '','' @ north_lat box @ '','' @ east_lon box)),
      (''models'', PStr ''icon_global''),
      (''forecast_hours'', PInt 0)]"

definition get_grid_points ::
  "'f env \<Rightarrow> 'f state \<Rightarrow> bbox \<Rightarrow> (error + 'f list \<times> 'f list) \<times> 'f state" where
  "get_grid_points env s box =
     (let params = grid_params box;
          s1 = emit (WeatherApi forecast_url params) s
      in case weather_api env (trace s) forecast_url params of
           Inl e \<Rightarrow> (Inl e, s1)
         | Inr responses \<Rightarrow> (Inr (map Latitude responses, map Longitude responses), s1))"

definition get_weather_params :: "'f list \<Rightarrow> 'f list \<Rightarrow> string \<Rightarrow> 'f params" where
  "get_weather_params latitudes longitudes mode =
     [(''latitude'', PFloats latitudes),
      (''longitude'', PFloats longitudes),
      (''hourly'', PStrs [''temperature_2m'', ''is_day'', ''precipitation_probability'',
                          ''precipitation'']),
      (''wind_speed_unit'', PStr ''mph''),
      (''temperature_unit'', PStr ''fahrenheit''),
      (''precipitation_unit'', PStr ''inch'')]
     @ (if mode = ''history''
        then [(''past_hours'', PInt 24), (''forecast_hours'', PInt 0)]
        else [(''past_hours'', PInt 0), (''forecast_hours'', PInt 1)])"

definition get_weather ::
  "'f env \<Rightarrow> 'f state \<Rightarrow> 'f list \<Rightarrow> 'f list \<Rightarrow> string \<Rightarrow> (error + 'f response list) \<times> 'f state" where
  "get_weather env s latitudes longitudes mode =
     (let params = get_weather_params latitudes longitudes mode
      in (weather_api env (trace s) forecast_url params,
          emit (WeatherApi forecast_url params) s))"

subsection \<open>parse\_responses\<close>

text \<open>
  \<open>pd.date_range(start, end, freq, inclusive="left")\<close> on instants in seconds. The
  range is generated from the start, stepping by the frequency, and the end is dropped
  from it; a zero frequency divides by zero in the generation, a negative one steps
  downwards. When start and end coincide, pandas keeps the single instant unless both
  ends are excluded (so since 1.4, the version that introduced \<open>inclusive\<close>).
\<close>

function arange :: "int \<Rightarrow> int \<Rightarrow> int \<Rightarrow> int list" where
  "arange t e d =
     (if 0 < d \<and> t < e then t # arange (t + d) e d
      else if d < 0 \<and> e < t then t # arange (t + d) e d
      else [])"
  by pat_completeness auto
termination
  by (relation "measure (\<lambda>(t, e, d). if 0 < d then nat (e - t) else nat (t - e))") auto

declare arange.simps [simp del]

definition date_range :: "int \<Rightarrow> int \<Rightarrow> int \<Rightarrow> error + int list" where
  "date_range start end freq =
     (if freq = 0 then Inl ZeroDivisionError
      else if start = end then Inr [start]
      else Inr (arange start end freq))"

text \<open>
  The DataFrame constructor on a dict of one index column, three scalars (broadcast)
  and four arrays: all the array-like columns must have one length, else ValueError.
\<close>

definition DataFrame ::
  "int list \<Rightarrow> string \<Rightarrow> 'f \<Rightarrow> 'f \<Rightarrow> 'f list \<Rightarrow> 'f list \<Rightarrow> 'f list \<Rightarrow> 'f list
     \<Rightarrow> error + 'f dataframe" where
  "DataFrame ts label lat lon temp isd pprob precip =
     (if length temp = length ts \<and> length isd = length ts \<and> length pprob = length ts
         \<and> length precip = length ts
      then Inr (map (\<lambda>i. \<lparr>timestamp = ts ! i, location = label, latitude = lat,
                           longitude = lon, temperature_2m = temp ! i, is_day = isd ! i,
                           precipitation_probability = pprob ! i,
                           precipitation = precip ! i\<rparr>) [0..<length ts])
      else Inl ValueError)"

definition parse_response :: "'f response \<Rightarrow> string \<Rightarrow> error + 'f dataframe" where
  "parse_response response location_label =
     (let hourly = Hourly response
      in case date_range (Time hourly) (TimeEnd hourly) (Interval hourly) of
           Inl e \<Rightarrow> Inl e
         | Inr ts \<Rightarrow>
             DataFrame ts location_label (Latitude response) (Longitude response)
               (Variables hourly 0) (Variables hourly 1) (Variables hourly 2)
               (Variables hourly 3))"

fun parse_responses :: "'f response list \<Rightarrow> string \<Rightarrow> error + 'f dataframe list" where
  "parse_responses [] location_label = Inr []"
| "parse_responses (response # responses) location_label =
     (case parse_response response location_label of
        Inl e \<Rightarrow> Inl e
      | Inr df \<Rightarrow>
          (case parse_responses responses location_label of
             Inl e \<Rightarrow> Inl e
           | Inr dataframes \<Rightarrow> Inr (df # dataframes)))"

subsection \<open>responses\_to\_json\<close>

definition digit :: "nat \<Rightarrow> char" where
  "digit n = ''0123456789'' ! n"

fun dec :: "nat \<Rightarrow> string" where
  "dec n = (if n < 10 then [digit n] else dec (n div 10) @ [digit (n mod 10)])"

declare dec.simps [simp del]

definition pad2 :: "nat \<Rightarrow> string" where
  "pad2 n = (if n < 10 then CHR ''0'' # dec n else dec n)"

text \<open>\<open>strftime("%Y%m%d_%H%M%S")\<close>: the microseconds are not rendered.\<close>

definition strftime :: "datetime \<Rightarrow> string" where
  "strftime dt =
     dec (year dt) @ pad2 (month dt) @ pad2 (day dt) @ ''_''
     @ pad2 (hour dt) @ pad2 (minute dt) @ pad2 (second dt)"

text \<open>\<open>location_label.replace(" ", "_").replace(",", "")\<close>\<close>

definition safe_label :: "string \<Rightarrow> string" where
  "safe_label location_label =
     filter (\<lambda>c. c \<noteq> CHR '','')
       (map (\<lambda>c. if c = CHR '' '' then CHR ''_'' else c) location_label)"

definition filename :: "string \<Rightarrow> string \<Rightarrow> datetime \<Rightarrow> string" where
  "filename location_label mode now =
     safe_label location_label @ ''_'' @ mode @ ''_'' @ strftime now @ ''.json''"

text \<open>\<open>os.path.join\<close> of two components (POSIX).\<close>

definition path_join :: "string \<Rightarrow> string \<Rightarrow> string" where
  "path_join a b =
     (if b \<noteq> [] \<and> hd b = CHR ''/'' then b
      else if a = [] \<or> last a = CHR ''/'' then a @ b
      else a @ ''/'' @ b)"

text \<open>
  \<open>to_dict(orient="records")\<close> of the copy whose timestamp column is a string, then
  \<open>record["mode"] = mode\<close>: the new key goes last.
\<close>

definition to_record :: "(int \<Rightarrow> string) \<Rightarrow> string \<Rightarrow> 'f row \<Rightarrow> 'f json_obj" where
  "to_record render mode r =
     [(''timestamp'', JStr (render (timestamp r))),
      (''location'', JStr (location r)),
      (''latitude'', JNum (latitude r)),
      (''longitude'', JNum (longitude r)),
      (''temperature_2m'', JNum (temperature_2m r)),
      (''is_day'', JNum (is_day r)),
      (''precipitation_probability'', JNum (precipitation_probability r)),
      (''precipitation'', JNum (precipitation r))]
     @ [(''mode'', JStr mode)]"

definition responses_to_json ::
  "'f env \<Rightarrow> 'f state \<Rightarrow> 'f dataframe list \<Rightarrow> string \<Rightarrow> string \<Rightarrow> string \<times> 'f state" where
  "responses_to_json env s dataframes location_label mode =
     (let filepath = path_join (gettempdir env)
                       (filename location_label mode (utcnow env (trace s)));
          lines = concat (map (map (to_record (astype_str env) mode)) dataframes)
      in (filepath,
          emit (FileWrite filepath) (s\<lparr>files := (files s)(filepath \<mapsto> lines)\<rparr>)))"

subsection \<open>upload\_to\_snowflake\<close>

definition sf :: "'f env \<Rightarrow> 'f state \<Rightarrow> sf_call \<Rightarrow> error option \<times> 'f state" where
  "sf env s c = (snowflake env (trace s) c, emit (Snowflake c) s)"

definition put_sql :: "string \<Rightarrow> string" where
  "put_sql local_path = ''PUT 'file://'' @ local_path @ ''' @%raw_weather AUTO_COMPRESS=TRUE''"

definition copy_sql :: string where
  "copy_sql = ''COPY INTO raw_weather(raw, loaded_at) ''
     @ ''FROM (SELECT $1, METADATA$START_SCAN_TIME FROM @%raw_weather) ''
     @ ''FILE_FORMAT = (TYPE = 'JSON')''"

text \<open>The two statements run inside \<open>try\<close>; \<open>finally\<close> closes the cursor.\<close>

definition upload_statements :: "'f env \<Rightarrow> 'f state \<Rightarrow> string \<Rightarrow> (error + unit) \<times> 'f state" where
  "upload_statements env s local_path =
     (case sf env s (Execute (put_sql local_path)) of
        (Some e, s1) \<Rightarrow> (Inl e, s1)
      | (None, s1) \<Rightarrow>
          (case sf env s1 (Execute copy_sql) of
             (Some e, s2) \<Rightarrow> (Inl e, s2)
           | (None, s2) \<Rightarrow> (Inr (), s2)))"

definition upload_to_snowflake :: "'f env \<Rightarrow> 'f state \<Rightarrow> string \<Rightarrow> (error + unit) \<times> 'f state" where
  "upload_to_snowflake env s local_path =
     (case sf env s Cursor of
        (Some e, s1) \<Rightarrow> (Inl e, s1)
      | (None, s1) \<Rightarrow>
          (case upload_statements env s1 local_path of
             (r, s2) \<Rightarrow>
               (case sf env s2 CursorClose of
                  (Some e, s3) \<Rightarrow> (Inl e, s3)
                | (None, s3) \<Rightarrow> (r, s3))))"

subsection \<open>ingest\<close>

definition label_of :: "location \<Rightarrow> string" where
  "label_of loc = (case loc of LocStr s \<Rightarrow> s | LocTuple city st \<Rightarrow> city @ '', '' @ st)"

text \<open>\<open>os.remove\<close>\<close>

definition os_remove :: "'f state \<Rightarrow> string \<Rightarrow> (error + unit) \<times> 'f state" where
  "os_remove s path =
     (if path \<in> dom (files s)
      then (Inr (), emit (FileRemove path) (s\<lparr>files := (files s)(path := None)\<rparr>))
      else (Inl FileNotFoundError, emit (FileRemove path) s))"

text \<open>
  The first half of the loop body: resolve, fetch, normalize and report. The report
  reads \<open>df["latitude"].iloc[0]\<close> of every table, an IndexError on a table without rows;
  what it prints is not part of the model.
\<close>

definition ingest_fetch ::
  "'f env \<Rightarrow> 'f state \<Rightarrow> string \<Rightarrow> location \<Rightarrow> (error + 'f dataframe list) \<times> 'f state" where
  "ingest_fetch env s mode loc =
     (case get_bbox env s loc of
        (Inl e, s1) \<Rightarrow> (Inl e, s1)
      | (Inr box, s1) \<Rightarrow>
          (case get_grid_points env s1 box of
             (Inl e, s2) \<Rightarrow> (Inl e, s2)
           | (Inr (latitudes, longitudes), s2) \<Rightarrow>
               (case get_weather env s2 latitudes longitudes mode of
                  (Inl e, s3) \<Rightarrow> (Inl e, s3)
                | (Inr responses, s3) \<Rightarrow>
                    (case parse_responses responses (label_of loc) of
                       Inl e \<Rightarrow> (Inl e, s3)
                     | Inr dataframes \<Rightarrow>
                         if [] \<in> set dataframes then (Inl IndexError, s3)
                         else (Inr dataframes, s3)))))"

text \<open>The second half: serialize, load unless dry-run, remove the file.\<close>

definition ingest_load ::
  "'f env \<Rightarrow> 'f state \<Rightarrow> string \<Rightarrow> bool \<Rightarrow> location \<Rightarrow> 'f dataframe list
     \<Rightarrow> (error + unit) \<times> 'f state" where
  "ingest_load env s mode dry_run loc dataframes =
     (case responses_to_json env s dataframes (label_of loc) mode of
        (json_path, s1) \<Rightarrow>
          if dry_run then os_remove s1 json_path
          else (case upload_to_snowflake env s1 json_path of
                  (Inl e, s2) \<Rightarrow> (Inl e, s2)
                | (Inr _, s2) \<Rightarrow> os_remove s2 json_path))"

definition ingest_location ::
  "'f env \<Rightarrow> 'f state \<Rightarrow> string \<Rightarrow> bool \<Rightarrow> location \<Rightarrow> (error + unit) \<times> 'f state" where
  "ingest_location env s mode dry_run loc =
     (case ingest_fetch env s mode loc of
        (Inl e, s1) \<Rightarrow> (Inl e, s1)
      | (Inr dataframes, s1) \<Rightarrow> ingest_load env s1 mode dry_run loc dataframes)"

fun ingest_loop ::
  "'f env \<Rightarrow> 'f state \<Rightarrow> string \<Rightarrow> bool \<Rightarrow> location list \<Rightarrow> (error + unit) \<times> 'f state" where
  "ingest_loop env s mode dry_run [] = (Inr (), s)"
| "ingest_loop env s mode dry_run (loc # locations) =
     (case ingest_location env s mode dry_run loc of
        (Inl e, s1) \<Rightarrow> (Inl e, s1)
      | (Inr _, s1) \<Rightarrow> ingest_loop env s1 mode dry_run locations)"

text \<open>
  The connection is made before \<open>try\<close>: when that raises, nothing else runs. \<open>finally\<close>
  closes the connection when there is one (\<open>if conn\<close>: a connection object is true, the
  \<open>None\<close> of a dry run is not); an exception of \<open>close\<close> replaces the loop's.
\<close>

definition ingest ::
  "'f env \<Rightarrow> 'f state \<Rightarrow> string \<Rightarrow> location list option \<Rightarrow> bool \<Rightarrow> (error + unit) \<times> 'f state" where
  "ingest env s mode locations dry_run =
     (let locs = (case locations of None \<Rightarrow> LOCATIONS | Some ls \<Rightarrow> ls)
      in if dry_run then ingest_loop env s mode dry_run locs
         else (case sf env s Connect of
                 (Some e, s1) \<Rightarrow> (Inl e, s1)
               | (None, s1) \<Rightarrow>
                   (case ingest_loop env s1 mode dry_run locs of
                      (r, s2) \<Rightarrow>
                        (case sf env s2 Close of
                           (Some e, s3) \<Rightarrow> (Inl e, s3)
                         | (None, s3) \<Rightarrow> (r, s3)))))"


subsection \<open>Notions used by the statements\<close>

text \<open>
  The field ranges of a Python \<open>datetime\<close>, and agreement of two of them up to the
  second.
\<close>

definition valid_datetime :: "datetime \<Rightarrow> bool" where
  "valid_datetime dt \<longleftrightarrow>
     1 \<le> year dt \<and> year dt \<le> 9999 \<and> 1 \<le> month dt \<and> month dt \<le> 12
     \<and> 1 \<le> day dt \<and> day dt \<le> 31
     \<and> hour dt < 24 \<and> minute dt < 60 \<and> second dt < 60 \<and> microsecond dt < 1000000"

definition same_second :: "datetime \<Rightarrow> datetime \<Rightarrow> bool" where
  "same_second a b \<longleftrightarrow>
     year a = year b \<and> month a = month b \<and> day a = day b
     \<and> hour a = hour b \<and> minute a = minute b \<and> second a = second b"

text \<open>The part of \<open>strftime\<close> after the year: eleven characters.\<close>

definition clock :: "datetime \<Rightarrow> string" where
  "clock dt =
     pad2 (month dt) @ pad2 (day dt) @ ''_'' @ pad2 (hour dt) @ pad2 (minute dt)
     @ pad2 (second dt)"

definition is_request :: "'f event \<Rightarrow> bool" where
  "is_request ev = (case ev of HttpGet _ _ \<Rightarrow> True | WeatherApi _ _ \<Rightarrow> True | _ \<Rightarrow> False)"

definition is_file_event :: "'f event \<Rightarrow> bool" where
  "is_file_event ev = (case ev of FileWrite _ \<Rightarrow> True | FileRemove _ \<Rightarrow> True | _ \<Rightarrow> False)"

text \<open>The events of \<open>upload_to_snowflake\<close>.\<close>

definition is_cursor_call :: "'f event \<Rightarrow> bool" where
  "is_cursor_call ev =
     (case ev of Snowflake Cursor \<Rightarrow> True | Snowflake (Execute _) \<Rightarrow> True
      | Snowflake CursorClose \<Rightarrow> True | _ \<Rightarrow> False)"

text \<open>The path \<open>responses_to_json\<close> writes to, when called after the events \<open>tr\<close>.\<close>

definition json_path :: "'f env \<Rightarrow> 'f event list \<Rightarrow> string \<Rightarrow> location \<Rightarrow> string" where
  "json_path env tr mode loc =
     path_join (gettempdir env) (filename (label_of loc) mode (utcnow env tr))"




subsection \<open>A concrete environment\<close>

text \<open>
  One grid point, a window of two hours, a warehouse that accepts every call, and a
  clock that advances with the events.
\<close>

definition example_response :: "int response" where
  "example_response =
     \<lparr>Latitude = 33, Longitude = - 84,
      Hourly = \<lparr>Time = 0, TimeEnd = 7200, Interval = 3600,
                Variables = (\<lambda>i. [70 + int i, 71 + int i])\<rparr>\<rparr>"

definition example_env :: "int env" where
  "example_env =
     \<lparr>requests_get =
        (\<lambda>tr url params. Inr [\<lparr>boundingbox = Some [''33.6'', ''33.9'', ''-84.6'', ''-84.3'']\<rparr>]),
      weather_api = (\<lambda>tr url params. Inr [example_response]),
      snowflake = (\<lambda>tr c. None),
      utcnow = (\<lambda>tr. \<lparr>year = 2024, month = 3, day = 9, hour = 7, minute = 5,
                         second = length tr mod 60, microsecond = 0\<rparr>),
      gettempdir = ''/tmp'',
      astype_str = (\<lambda>t. dec (nat t))\<rparr>"


text \<open>The same environment with a warehouse that rejects every statement.\<close>

definition failing_env :: "int env" where
  "failing_env =
     example_env\<lparr>snowflake :=
       (\<lambda>tr c. case c of Execute q \<Rightarrow> Some (External ''ProgrammingError'') | _ \<Rightarrow> None)\<rparr>"


definition initial :: "int state" where
  "initial = \<lparr>trace = [], files = Map.empty\<rparr>"

section \<open>Properties\<close>

subsection \<open>The fetch window\<close>

lemma get_weather_params_lookup:
  "map_of (get_weather_params lats lons mode) ''past_hours''
     = Some (PInt (if mode = ''history'' then 24 else 0))"
  "map_of (get_weather_params lats lons mode) ''forecast_hours''
     = Some (PInt (if mode = ''history'' then 0 else 1))"
  "map_of (get_weather_params lats lons mode) ''latitude'' = Some (PFloats lats)"
  "map_of (get_weather_params lats lons mode) ''longitude'' = Some (PFloats lons)"
  by (simp_all add: get_weather_params_def)

text \<open>
  C2. Whatever the latitude and longitude sequences, \<open>get_weather\<close> issues one request
  to the provider, carrying the two sequences and the window of the mode: 24 past hours
  and 0 forward hours for \<open>history\<close>, 0 past hours and 1 forward hour for \<open>forecast\<close>.
\<close>

theorem get_weather_window:
  "get_weather env s lats lons mode =
     (weather_api env (trace s) forecast_url (get_weather_params lats lons mode),
      emit (WeatherApi forecast_url (get_weather_params lats lons mode)) s)
   \<and> map_of (get_weather_params lats lons mode) ''latitude'' = Some (PFloats lats)
   \<and> map_of (get_weather_params lats lons mode) ''longitude'' = Some (PFloats lons)
   \<and> map_of (get_weather_params lats lons ''history'') ''past_hours'' = Some (PInt 24)
   \<and> map_of (get_weather_params lats lons ''history'') ''forecast_hours'' = Some (PInt 0)
   \<and> map_of (get_weather_params lats lons ''forecast'') ''past_hours'' = Some (PInt 0)
   \<and> map_of (get_weather_params lats lons ''forecast'') ''forecast_hours'' = Some (PInt 1)"
  by (simp add: get_weather_def Let_def get_weather_params_lookup)

subsection \<open>The state after the requests\<close>

lemma get_bbox_snd: "snd (get_bbox env s loc) = emit (HttpGet nominatim_url (get_bbox_params loc)) s"
  by (simp add: get_bbox_def Let_def split: sum.splits list.splits option.splits)

lemma get_grid_points_snd: "snd (get_grid_points env s box) = emit (WeatherApi forecast_url (grid_params box)) s"
  by (simp add: get_grid_points_def Let_def split: sum.splits)

lemma get_weather_snd:
  "snd (get_weather env s lats lons mode) = emit (WeatherApi forecast_url (get_weather_params lats lons mode)) s"
  by (simp add: get_weather_def Let_def)

lemma ingest_fetch_state:
  "\<exists>evs. trace (snd (ingest_fetch env s mode loc)) = trace s @ evs \<and> list_all is_request evs
     \<and> files (snd (ingest_fetch env s mode loc)) = files s"
proof (cases "get_bbox env s loc")
  case (Pair r1 s1)
  with get_bbox_snd [of env s loc] have s1: "s1 = emit (HttpGet nominatim_url (get_bbox_params loc)) s" by simp
  show ?thesis
  proof (cases r1)
    case (Inl e)
    with Pair s1 show ?thesis by (simp add: ingest_fetch_def emit_def is_request_def)
  next
    case (Inr box)
    note r1 = this
    show ?thesis
    proof (cases "get_grid_points env s1 box")
      case (Pair r2 s2)
      note p2 = this
      with get_grid_points_snd [of env s1 box] have s2: "s2 = emit (WeatherApi forecast_url (grid_params box)) s1" by simp
      show ?thesis
      proof (cases r2)
        case (Inl e)
        with \<open>get_bbox env s loc = (r1, s1)\<close> r1 p2 s1 s2 show ?thesis
          by (simp add: ingest_fetch_def emit_def is_request_def)
      next
        case (Inr pts)
        obtain lats lons where pts: "pts = (lats, lons)" by (cases pts)
        obtain r3 s3 where p3: "get_weather env s2 lats lons mode = (r3, s3)" by (cases "get_weather env s2 lats lons mode")
        with get_weather_snd [of env s2 lats lons mode]
        have s3: "s3 = emit (WeatherApi forecast_url (get_weather_params lats lons mode)) s2" by simp
        from \<open>get_bbox env s loc = (r1, s1)\<close> r1 p2 Inr pts p3 s1 s2 s3 show ?thesis
          by (simp add: ingest_fetch_def emit_def is_request_def split: sum.splits)
      qed
    qed
  qed
qed

subsection \<open>Normalization\<close>




















subsection \<open>The file name\<close>

lemma digit_inj: "m < 10 \<Longrightarrow> n < 10 \<Longrightarrow> digit m = digit n \<Longrightarrow> m = n"
proof -
  assume a: "m < 10" "n < 10" "digit m = digit n"
  have d: "distinct ''0123456789''" by simp
  have l: "length ''0123456789'' = 10" by simp
  from a d l show ?thesis
    unfolding digit_def by (metis nth_eq_iff_index_eq)
qed

lemma digit_in: "n < 10 \<Longrightarrow> digit n \<in> set ''0123456789''"
  unfolding digit_def by (rule nth_mem) simp

lemma dec_digits: "set (dec n) \<subseteq> set ''0123456789''"
proof (induction n rule: dec.induct)
  case (1 n)
  show ?case
  proof (cases "n < 10")
    case True
    then show ?thesis using digit_in [of n] by (simp add: dec.simps [of n])
  next
    case False
    then have "n mod 10 < 10" by simp
    with False 1 digit_in [of "n mod 10"] show ?thesis by (simp add: dec.simps [of n])
  qed
qed

lemma dec_nonempty: "dec n \<noteq> []"
  by (simp add: dec.simps [of n])

lemma dec_inj: "dec m = dec n \<Longrightarrow> m = n"
proof (induction m arbitrary: n rule: dec.induct)
  case (1 m)
  show ?case
  proof (cases "m < 10")
    case True
    note m = this
    show ?thesis
    proof (cases "n < 10")
      case True
      with m 1(2) show ?thesis by (simp add: dec.simps [of m] dec.simps [of n] digit_inj)
    next
      case False
      with m 1(2) have "[digit m] = dec (n div 10) @ [digit (n mod 10)]"
        by (simp add: dec.simps [of m] dec.simps [of n])
      then show ?thesis using dec_nonempty [of "n div 10"] by simp
    qed
  next
    case False
    note m = this
    show ?thesis
    proof (cases "n < 10")
      case True
      with m 1(2) have "dec (m div 10) @ [digit (m mod 10)] = [digit n]"
        by (simp add: dec.simps [of m] dec.simps [of n])
      then show ?thesis using dec_nonempty [of "m div 10"] by simp
    next
      case False
      with m 1(2) have "dec (m div 10) @ [digit (m mod 10)] = dec (n div 10) @ [digit (n mod 10)]"
        by (simp add: dec.simps [of m] dec.simps [of n])
      then have e: "dec (m div 10) = dec (n div 10)" "digit (m mod 10) = digit (n mod 10)"
        by simp_all
      from 1(1) [OF m e(1)] have "m div 10 = n div 10" .
      moreover from e(2) have "m mod 10 = n mod 10" by (intro digit_inj) simp_all
      ultimately show ?thesis by (metis div_mult_mod_eq)
    qed
  qed
qed

lemma pad2_digits: "k < 100 \<Longrightarrow> pad2 k = [digit (k div 10), digit (k mod 10)]"
proof (cases "k < 10")
  case True
  then show ?thesis by (simp add: pad2_def dec.simps [of k] digit_def)
next
  case False
  assume "k < 100"
  then have "k div 10 < 10" by simp
  then have "dec (k div 10) = [digit (k div 10)]" by (simp add: dec.simps [of "k div 10"])
  with False show ?thesis by (simp add: pad2_def dec.simps [of k])
qed

lemma pad2_length: "n < 100 \<Longrightarrow> length (pad2 n) = 2"
  by (simp add: pad2_digits)

lemma pad2_inj: "m < 100 \<Longrightarrow> n < 100 \<Longrightarrow> pad2 m = pad2 n \<Longrightarrow> m = n"
proof -
  assume a: "m < 100" "n < 100" "pad2 m = pad2 n"
  from a pad2_digits [of m] pad2_digits [of n]
  have "digit (m div 10) = digit (n div 10)" "digit (m mod 10) = digit (n mod 10)"
    by simp_all
  with a have "m div 10 = n div 10" "m mod 10 = n mod 10"
    by (auto intro!: digit_inj)
  then show ?thesis by (metis div_mult_mod_eq)
qed

lemma clock_length: "valid_datetime dt \<Longrightarrow> length (clock dt) = 11"
  by (simp add: clock_def valid_datetime_def pad2_length)

lemma clock_inj:
  assumes "valid_datetime a" "valid_datetime b" "clock a = clock b"
  shows "month a = month b \<and> day a = day b \<and> hour a = hour b \<and> minute a = minute b \<and> second a = second b"
proof -
  have l: "length (pad2 (month a)) = 2" "length (pad2 (month b)) = 2"
    "length (pad2 (day a)) = 2" "length (pad2 (day b)) = 2"
    "length (pad2 (hour a)) = 2" "length (pad2 (hour b)) = 2"
    "length (pad2 (minute a)) = 2" "length (pad2 (minute b)) = 2"
    using assms(1,2) by (simp_all add: valid_datetime_def pad2_length)
  from assms(3) l have "pad2 (month a) = pad2 (month b)" "pad2 (day a) = pad2 (day b)"
    "pad2 (hour a) = pad2 (hour b)" "pad2 (minute a) = pad2 (minute b)"
    "pad2 (second a) = pad2 (second b)"
    by (simp_all add: clock_def)
  with assms(1,2) show ?thesis
    by (auto simp: valid_datetime_def intro!: pad2_inj)
qed

lemma strftime_clock: "strftime dt = dec (year dt) @ clock dt"
  by (simp add: strftime_def clock_def)

lemma last_sep:
  assumes "xs @ u # ds = ys @ u # es" "u \<notin> set ds" "u \<notin> set es"
  shows "ds = es"
proof -
  have t: "takeWhile (\<lambda>c. c \<noteq> u) (rev zs @ u # ws) = rev zs" if "u \<notin> set zs" for zs ws
  proof -
    have "takeWhile (\<lambda>c. c \<noteq> u) (rev zs @ u # ws) = rev zs @ takeWhile (\<lambda>c. c \<noteq> u) (u # ws)"
      by (rule takeWhile_append2) (use that in auto)
    then show ?thesis by simp
  qed
  from assms(1) have "rev (xs @ u # ds) = rev (ys @ u # es)" by simp
  then have "rev ds @ u # rev xs = rev es @ u # rev ys" by simp
  then have "takeWhile (\<lambda>c. c \<noteq> u) (rev ds @ u # rev xs) = takeWhile (\<lambda>c. c \<noteq> u) (rev es @ u # rev ys)"
    by simp
  then have "rev ds = rev es"
    by (simp only: t [OF assms(2)] t [OF assms(3)])
  then show ?thesis by simp
qed

lemma filename_inj:
  assumes v: "valid_datetime a" "valid_datetime b"
    and eq: "filename l1 m1 a = filename l2 m2 b"
  shows "same_second a b"
proof -
  define p1 where "p1 = safe_label l1 @ ''_'' @ m1"
  define p2 where "p2 = safe_label l2 @ ''_'' @ m2"
  define A where "A = p1 @ CHR ''_'' # dec (year a)"
  define B where "B = p2 @ CHR ''_'' # dec (year b)"
  from eq have "A @ clock a = B @ clock b"
    by (simp add: A_def B_def p1_def p2_def filename_def strftime_clock)
  moreover from v have "length (clock a) = length (clock b)"
    by (simp add: clock_length)
  ultimately have e: "A = B" "clock a = clock b"
    by simp_all
  have "CHR ''_'' \<notin> set ''0123456789''" by simp
  with dec_digits have "CHR ''_'' \<notin> set (dec (year a))" "CHR ''_'' \<notin> set (dec (year b))"
    by blast+
  with e(1) have "dec (year a) = dec (year b)"
    unfolding A_def B_def by (rule last_sep)
  then have "year a = year b" by (rule dec_inj)
  with clock_inj [OF v e(2)] show ?thesis by (simp add: same_second_def)
qed

lemma path_join_inj:
  assumes "path_join t (safe_label l @ ''_'' @ x) = path_join t (safe_label l @ ''_'' @ y)"
  shows "x = y"
proof (cases "safe_label l")
  case Nil
  with assms show ?thesis by (simp add: path_join_def split: if_splits)
next
  case (Cons c cs)
  with assms show ?thesis by (simp add: path_join_def split: if_splits)
qed

lemma strftime_microsecond: "strftime (dt\<lparr>microsecond := us\<rparr>) = strftime dt"
  by (simp add: strftime_def)

lemma responses_to_json_path:
  "fst (responses_to_json env s dfs label mode) =
     path_join (gettempdir env) (filename label mode (utcnow env (trace s)))"
  by (simp add: responses_to_json_def Let_def)

lemma path_join_filename_inj:
  assumes "path_join t (filename l m1 a) = path_join t (filename l m2 b)"
  shows "filename l m1 a = filename l m2 b"
proof -
  from assms have "m1 @ ''_'' @ strftime a @ ''.json'' = m2 @ ''_'' @ strftime b @ ''.json''"
    unfolding filename_def by (rule path_join_inj)
  then show ?thesis by (simp add: filename_def)
qed

text \<open>
  C9, as the code has it. The file is written to the temporary directory joined with
  a name that is a function of the label, the mode and the run's UTC time: the label
  with every space replaced by an underscore and every comma removed, the mode, and the
  time as \<open>%Y%m%d_%H%M%S\<close>, which drops the microseconds. Two valid instants that
  differ in some field down to the second give different names, and different paths,
  for one label, whatever the modes.
\<close>

theorem filename_deterministic_distinct:
  "fst (responses_to_json env s dfs label mode) =
     path_join (gettempdir env) (filename label mode (utcnow env (trace s)))
   \<and> filename label mode now =
       filter (\<lambda>c. c \<noteq> CHR '','') (map (\<lambda>c. if c = CHR '' '' then CHR ''_'' else c) label)
       @ ''_'' @ mode @ ''_'' @ strftime now @ ''.json''
   \<and> filename label mode (now\<lparr>microsecond := us\<rparr>) = filename label mode now
   \<and> (valid_datetime a \<and> valid_datetime b \<and> \<not> same_second a b \<longrightarrow>
        filename label m1 a \<noteq> filename label m2 b
        \<and> path_join tmp (filename label m1 a) \<noteq> path_join tmp (filename label m2 b))"
proof -
  have d: "filename label m1 a \<noteq> filename label m2 b"
    if "valid_datetime a" "valid_datetime b" "\<not> same_second a b"
    using that filename_inj [of a b label m1 label m2] by blast
  then have "path_join tmp (filename label m1 a) \<noteq> path_join tmp (filename label m2 b)"
    if "valid_datetime a" "valid_datetime b" "\<not> same_second a b"
    using that path_join_filename_inj [of tmp label m1 a m2 b] by blast
  with d show ?thesis
    by (simp add: responses_to_json_path filename_def safe_label_def strftime_microsecond)
qed

text \<open>Two runs for Atlanta, one second apart.\<close>

theorem filename_deterministic_distinct_witness:
  "valid_datetime \<lparr>year = 2024, month = 3, day = 9, hour = 7, minute = 5, second = 0, microsecond = 0\<rparr>
   \<and> valid_datetime \<lparr>year = 2024, month = 3, day = 9, hour = 7, minute = 5, second = 1, microsecond = 0\<rparr>
   \<and> \<not> same_second \<lparr>year = 2024, month = 3, day = 9, hour = 7, minute = 5, second = 0, microsecond = 0\<rparr>
        \<lparr>year = 2024, month = 3, day = 9, hour = 7, minute = 5, second = 1, microsecond = 0\<rparr>
   \<and> filename ''Atlanta, Georgia'' ''history''
        \<lparr>year = 2024, month = 3, day = 9, hour = 7, minute = 5, second = 0, microsecond = 0\<rparr>
      \<noteq> filename ''Atlanta, Georgia'' ''history''
        \<lparr>year = 2024, month = 3, day = 9, hour = 7, minute = 5, second = 1, microsecond = 0\<rparr>
   \<and> filename ''Atlanta, Georgia'' ''history''
        \<lparr>year = 2024, month = 3, day = 9, hour = 7, minute = 5, second = 0, microsecond = 0\<rparr>
      = ''Atlanta_Georgia_history_20240309_070500.json''"
proof -
  let ?a = "\<lparr>year = 2024, month = 3, day = 9, hour = 7, minute = 5, second = 0, microsecond = 0\<rparr>"
  let ?b = "\<lparr>year = 2024, month = 3, day = 9, hour = 7, minute = 5, second = 1, microsecond = 0\<rparr>"
  have v: "valid_datetime ?a" "valid_datetime ?b" "\<not> same_second ?a ?b"
    by (simp_all add: valid_datetime_def same_second_def)
  have n: "filename ''Atlanta, Georgia'' ''history'' ?a = ''Atlanta_Georgia_history_20240309_070500.json''"
    by (simp add: filename_def safe_label_def strftime_def pad2_def dec.simps digit_def)
  from filename_deterministic_distinct [of example_env initial "[]" "''Atlanta, Georgia''"
      "''history''" ?a 0 ?a ?b "''history''" "''history''" "''/tmp''"] v
  have "filename ''Atlanta, Georgia'' ''history'' ?a \<noteq> filename ''Atlanta, Georgia'' ''history'' ?b"
    by blast
  with v n show ?thesis by blast
qed

text \<open>
  C9 as stated fails: the spaces of the label are not stripped, they become underscores.
\<close>

theorem filename_counterexample:
  "safe_label ''New York, New York'' = ''New_York_New_York''
   \<and> safe_label ''New York, New York''
       \<noteq> filter (\<lambda>c. c \<noteq> CHR '' '' \<and> c \<noteq> CHR '','') ''New York, New York''
   \<and> filename ''New York, New York'' ''history''
        \<lparr>year = 2024, month = 3, day = 9, hour = 7, minute = 5, second = 0, microsecond = 0\<rparr>
      = ''New_York_New_York_history_20240309_070500.json''"
  by (simp add: filename_def safe_label_def strftime_def pad2_def dec.simps digit_def)

subsection \<open>Serialization\<close>






subsection \<open>The load and the loop\<close>

lemma request_events:
  "list_all is_request evs \<Longrightarrow> filter is_file_event evs = [] \<and> (\<forall>c. Snowflake c \<notin> set evs)"
  by (induction evs) (auto simp: is_request_def is_file_event_def split: event.splits)

lemma os_remove_present:
  "files s p = Some ls \<Longrightarrow>
     os_remove s p = (Inr (), emit (FileRemove p) (s\<lparr>files := (files s)(p := None)\<rparr>))"
  by (simp add: os_remove_def dom_def)

lemma responses_to_json_eq:
  "responses_to_json env s dfs (label_of loc) mode =
     (json_path env (trace s) mode loc,
      emit (FileWrite (json_path env (trace s) mode loc))
        (s\<lparr>files := (files s)(json_path env (trace s) mode loc
                 \<mapsto> concat (map (map (to_record (astype_str env) mode)) dfs))\<rparr>))"
  by (simp add: responses_to_json_def json_path_def Let_def)

lemma ingest_load_dry:
  "ingest_load env s mode True loc dfs =
     (Inr (), s\<lparr>trace := trace s @ [FileWrite (json_path env (trace s) mode loc),
                                     FileRemove (json_path env (trace s) mode loc)],
                files := (files s)(json_path env (trace s) mode loc := None)\<rparr>)"
  by (simp add: ingest_load_def responses_to_json_eq os_remove_def emit_def)

lemma upload_statements_state:
  "\<exists>evs. trace (snd (upload_statements env s p)) = trace s @ evs \<and> list_all is_cursor_call evs
     \<and> files (snd (upload_statements env s p)) = files s"
  by (auto simp: upload_statements_def sf_def emit_def is_cursor_call_def split: option.splits)

lemma upload_to_snowflake_state:
  "\<exists>evs. trace (snd (upload_to_snowflake env s p)) = trace s @ evs \<and> list_all is_cursor_call evs
     \<and> files (snd (upload_to_snowflake env s p)) = files s"
proof (cases "snowflake env (trace s) Cursor")
  case (Some e)
  then show ?thesis
    by (simp add: upload_to_snowflake_def sf_def emit_def is_cursor_call_def)
next
  case None
  let ?s1 = "emit (Snowflake Cursor) s"
  obtain r s2 where u: "upload_statements env ?s1 p = (r, s2)"
    by (cases "upload_statements env ?s1 p")
  with upload_statements_state [of env ?s1 p] obtain evs where
    evs: "trace s2 = trace ?s1 @ evs" "list_all is_cursor_call evs" "files s2 = files ?s1"
    by auto
  have "trace (snd (upload_to_snowflake env s p)) = trace s @ (Snowflake Cursor # evs @ [Snowflake CursorClose])"
    "files (snd (upload_to_snowflake env s p)) = files s"
    using None u evs
    by (simp_all add: upload_to_snowflake_def sf_def emit_def split: option.splits)
  moreover have "list_all is_cursor_call (Snowflake Cursor # evs @ [Snowflake CursorClose])"
    using evs(2) by (simp add: is_cursor_call_def)
  ultimately show ?thesis by blast
qed

lemma cursor_events:
  "list_all is_cursor_call evs \<Longrightarrow>
     filter is_file_event evs = [] \<and> Snowflake Connect \<notin> set evs \<and> Snowflake Close \<notin> set evs"
  by (induction evs)
    (auto simp: is_cursor_call_def is_file_event_def split: event.splits sf_call.splits)

lemma ingest_location_dry:
  assumes "ingest_location env s mode True loc = (r, s')"
  shows "\<exists>evs. list_all is_request evs \<and>
     (case r of
        Inl e \<Rightarrow> trace s' = trace s @ evs \<and> files s' = files s
      | Inr _ \<Rightarrow>
          trace s' =
            trace s @ evs @ [FileWrite (json_path env (trace s @ evs) mode loc),
                             FileRemove (json_path env (trace s @ evs) mode loc)]
          \<and> files s' = (files s)(json_path env (trace s @ evs) mode loc := None))"
proof -
  obtain r1 s1 where f: "ingest_fetch env s mode loc = (r1, s1)"
    by (cases "ingest_fetch env s mode loc")
  with ingest_fetch_state [of env s mode loc] obtain evs where
    evs: "trace s1 = trace s @ evs" "list_all is_request evs" "files s1 = files s"
    by auto
  show ?thesis
  proof (cases r1)
    case (Inl e)
    with f evs assms show ?thesis
      by (intro exI [of _ evs]) (auto simp: ingest_location_def)
  next
    case (Inr dfs)
    with f evs assms show ?thesis
      by (intro exI [of _ evs]) (auto simp: ingest_location_def ingest_load_dry)
  qed
qed

lemma ingest_loop_dry:
  "\<exists>evs paths.
     trace (snd (ingest_loop env s mode True locs)) = trace s @ evs
     \<and> (\<forall>c. Snowflake c \<notin> set evs)
     \<and> filter is_file_event evs = concat (map (\<lambda>p. [FileWrite p, FileRemove p]) paths)
     \<and> files (snd (ingest_loop env s mode True locs)) =
         (\<lambda>q. if q \<in> set paths then None else files s q)
     \<and> length paths \<le> length locs
     \<and> (\<forall>i<length paths. \<exists>now.
           paths ! i = path_join (gettempdir env) (filename (label_of (locs ! i)) mode now))
     \<and> (fst (ingest_loop env s mode True locs) = Inr () \<longrightarrow> length paths = length locs)"
proof (induction locs arbitrary: s)
  case Nil
  show ?case
    by (intro exI [of _ "[]"]) simp
next
  case (Cons loc locs)
  obtain r s1 where l: "ingest_location env s mode True loc = (r, s1)"
    by (cases "ingest_location env s mode True loc")
  from ingest_location_dry [OF l] obtain evs1 where
    req: "list_all is_request evs1"
    and out: "case r of
        Inl e \<Rightarrow> trace s1 = trace s @ evs1 \<and> files s1 = files s
      | Inr _ \<Rightarrow>
          trace s1 = trace s @ evs1 @ [FileWrite (json_path env (trace s @ evs1) mode loc),
                                      FileRemove (json_path env (trace s @ evs1) mode loc)]
          \<and> files s1 = (files s)(json_path env (trace s @ evs1) mode loc := None)"
    by blast
  from req request_events have q: "filter is_file_event evs1 = []" "\<forall>c. Snowflake c \<notin> set evs1"
    by blast+
  show ?case
  proof (cases r)
    case (Inl e)
    with l out q show ?thesis
      by (intro exI [of _ evs1] exI [of _ "[]"]) simp
  next
    case (Inr u)
    let ?p = "json_path env (trace s @ evs1) mode loc"
    from Inr out have s1: "trace s1 = trace s @ evs1 @ [FileWrite ?p, FileRemove ?p]"
      "files s1 = (files s)(?p := None)"
      by simp_all
    from Cons.IH [of s1] obtain evs2 paths where
      ih: "trace (snd (ingest_loop env s1 mode True locs)) = trace s1 @ evs2"
        "\<forall>c. Snowflake c \<notin> set evs2"
        "filter is_file_event evs2 = concat (map (\<lambda>p. [FileWrite p, FileRemove p]) paths)"
        "files (snd (ingest_loop env s1 mode True locs)) =
           (\<lambda>q. if q \<in> set paths then None else files s1 q)"
        "length paths \<le> length locs"
        "\<forall>i<length paths. \<exists>now.
           paths ! i = path_join (gettempdir env) (filename (label_of (locs ! i)) mode now)"
        "fst (ingest_loop env s1 mode True locs) = Inr () \<longrightarrow> length paths = length locs"
      by blast
    let ?evs = "evs1 @ [FileWrite ?p, FileRemove ?p] @ evs2"
    let ?paths = "?p # paths"
    have loop: "ingest_loop env s mode True (loc # locs) = ingest_loop env s1 mode True locs"
      using l Inr by simp
    have 1: "trace (snd (ingest_loop env s mode True (loc # locs))) = trace s @ ?evs"
      using loop ih(1) s1(1) by simp
    have 2: "\<forall>c. Snowflake c \<notin> set ?evs"
      using q(2) ih(2) by simp
    have 3: "filter is_file_event ?evs = concat (map (\<lambda>p. [FileWrite p, FileRemove p]) ?paths)"
      using q(1) ih(3) by (simp add: is_file_event_def)
    have 4: "files (snd (ingest_loop env s mode True (loc # locs))) =
         (\<lambda>q. if q \<in> set ?paths then None else files s q)"
      using loop ih(4) s1(2) by (auto simp: fun_eq_iff)
    have 5: "length ?paths \<le> length (loc # locs)"
      using ih(5) by simp
    have 6: "\<forall>i<length ?paths. \<exists>now.
           ?paths ! i = path_join (gettempdir env) (filename (label_of ((loc # locs) ! i)) mode now)"
    proof (intro allI impI)
      fix i assume i: "i < length ?paths"
      show "\<exists>now. ?paths ! i =
          path_join (gettempdir env) (filename (label_of ((loc # locs) ! i)) mode now)"
      proof (cases i)
        case 0
        then show ?thesis by (auto simp: json_path_def)
      next
        case (Suc j)
        with i ih(6) show ?thesis by simp
      qed
    qed
    have 7: "fst (ingest_loop env s mode True (loc # locs)) = Inr () \<longrightarrow>
        length ?paths = length (loc # locs)"
      using loop ih(7) by simp
    from 1 2 3 4 5 6 7 show ?thesis by blast
  qed
qed

lemma example_parse:
  "parse_response example_response label =
     Inr [\<lparr>timestamp = 0, location = label, latitude = 33, longitude = - 84,
            temperature_2m = 70, is_day = 71, precipitation_probability = 72,
            precipitation = 73\<rparr>,
           \<lparr>timestamp = 3600, location = label, latitude = 33, longitude = - 84,
            temperature_2m = 71, is_day = 72, precipitation_probability = 73,
            precipitation = 74\<rparr>]"
  by (simp add: example_response_def parse_response_def Let_def date_range_def arange.simps
      DataFrame_def upt_rec [of 0] upt_rec [of "Suc 0"])

lemma example_fetch:
  "\<exists>dfs s'. ingest_fetch example_env s mode loc = (Inr dfs, s')"
proof -
  have b: "\<exists>box. get_bbox example_env t loc = (Inr box, emit (HttpGet nominatim_url (get_bbox_params loc)) t)"
    for t :: "int state"
    by (simp add: get_bbox_def example_env_def Let_def)
  have g: "get_grid_points example_env t box =
      (Inr ([33], [- 84]), emit (WeatherApi forecast_url (grid_params box)) t)"
    for t :: "int state" and box
    by (simp add: get_grid_points_def example_env_def example_response_def Let_def)
  have w: "get_weather example_env t lats lons mode =
      (Inr [example_response], emit (WeatherApi forecast_url (get_weather_params lats lons mode)) t)"
    for t :: "int state" and lats lons
    by (simp add: get_weather_def example_env_def Let_def)
  from b [of s] obtain box where
    "get_bbox example_env s loc = (Inr box, emit (HttpGet nominatim_url (get_bbox_params loc)) s)"
    by blast
  then show ?thesis
    by (simp add: ingest_fetch_def g w example_parse emit_def)
qed

lemma example_loop_dry: "fst (ingest_loop example_env s mode True locs) = Inr ()"
proof (induction locs arbitrary: s)
  case Nil
  show ?case by simp
next
  case (Cons loc locs)
  from example_fetch [of s mode loc] obtain dfs s' where
    "ingest_fetch example_env s mode loc = (Inr dfs, s')"
    by blast
  then have "fst (ingest_location example_env s mode True loc) = Inr ()"
    by (simp add: ingest_location_def ingest_load_dry)
  then obtain s1 where "ingest_location example_env s mode True loc = (Inr (), s1)"
    by (cases "ingest_location example_env s mode True loc") simp
  with Cons.IH [of s1] show ?case by simp
qed

text \<open>
  C1. In a dry run, whatever the locations and the environment, the new events hold no
  warehouse call at all (no connection, no cursor, no PUT, no COPY INTO); the file
  events are a write and then a removal of one path per location processed, the
  \<open>i\<close>-th path being the file name of the \<open>i\<close>-th location in the temporary directory; none
  of these files remains; and when the run returns without an exception, every location
  has had its file written and removed.
\<close>

theorem ingest_dry_run:
  "\<exists>evs paths.
     trace (snd (ingest env s mode locations True)) = trace s @ evs
     \<and> (\<forall>c. Snowflake c \<notin> set evs)
     \<and> filter is_file_event evs = concat (map (\<lambda>p. [FileWrite p, FileRemove p]) paths)
     \<and> files (snd (ingest env s mode locations True)) =
         (\<lambda>q. if q \<in> set paths then None else files s q)
     \<and> length paths \<le> length (case locations of None \<Rightarrow> LOCATIONS | Some ls \<Rightarrow> ls)
     \<and> (\<forall>i<length paths. \<exists>now.
           paths ! i =
             path_join (gettempdir env)
               (filename (label_of ((case locations of None \<Rightarrow> LOCATIONS | Some ls \<Rightarrow> ls) ! i))
                  mode now))
     \<and> (fst (ingest env s mode locations True) = Inr () \<longrightarrow>
          length paths = length (case locations of None \<Rightarrow> LOCATIONS | Some ls \<Rightarrow> ls))"
proof -
  have "ingest env s mode locations True =
      ingest_loop env s mode True (case locations of None \<Rightarrow> LOCATIONS | Some ls \<Rightarrow> ls)"
    by (simp add: ingest_def)
  then show ?thesis
    using ingest_loop_dry [of env s mode "case locations of None \<Rightarrow> LOCATIONS | Some ls \<Rightarrow> ls"]
    by simp
qed

text \<open>The default locations, in the example environment.\<close>

theorem ingest_dry_run_witness:
  "fst (ingest example_env initial ''history'' None True) = Inr ()
   \<and> (\<exists>evs paths.
        trace (snd (ingest example_env initial ''history'' None True)) = evs
        \<and> (\<forall>c. Snowflake c \<notin> set evs)
        \<and> filter is_file_event evs = concat (map (\<lambda>p. [FileWrite p, FileRemove p]) paths)
        \<and> length paths = 5
        \<and> files (snd (ingest example_env initial ''history'' None True)) = Map.empty)"
proof -
  have ok: "fst (ingest example_env initial ''history'' None True) = Inr ()"
    by (simp add: ingest_def example_loop_dry)
  have n: "length LOCATIONS = 5" by (simp add: LOCATIONS_def)
  from ingest_dry_run [of example_env initial "''history''" None] ok n
  obtain evs paths where
    "trace (snd (ingest example_env initial ''history'' None True)) = trace initial @ evs"
    "\<forall>c. Snowflake c \<notin> set evs"
    "filter is_file_event evs = concat (map (\<lambda>p. [FileWrite p, FileRemove p]) paths)"
    "files (snd (ingest example_env initial ''history'' None True)) =
         (\<lambda>q. if q \<in> set paths then None else files initial q)"
    "length paths = 5"
    by auto
  then have "trace (snd (ingest example_env initial ''history'' None True)) = evs
        \<and> (\<forall>c. Snowflake c \<notin> set evs)
        \<and> filter is_file_event evs = concat (map (\<lambda>p. [FileWrite p, FileRemove p]) paths)
        \<and> length paths = 5
        \<and> files (snd (ingest example_env initial ''history'' None True)) = Map.empty"
    by (simp add: initial_def fun_eq_iff)
  with ok show ?thesis by blast
qed

subsection \<open>The mode\<close>





subsection \<open>Location resolution\<close>

lemma get_bbox_raises:
  assumes "requests_get env (trace s) nominatim_url (get_bbox_params loc) = Inr cands"
    and "cands = [] \<or> boundingbox (hd cands) = None"
  shows "get_bbox env s loc =
     (Inl (if cands = [] then IndexError else KeyError),
      emit (HttpGet nominatim_url (get_bbox_params loc)) s)"
  using assms by (cases cands) (simp_all add: get_bbox_def Let_def)

text \<open>
  C5, as the code has it. When the geocoder answers with no candidate, \<open>get_bbox\<close>
  raises the IndexError of \<open>resp.json()[0]\<close>; when the first candidate has no
  \<open>boundingbox\<close>, the KeyError of the lookup (the module has no ResolutionError). The
  loop stops there with that exception: the lookup is the only new event, so that no
  provider request, no warehouse call and no file write follows it, and the files are
  as before.
\<close>

theorem get_bbox_no_candidate:
  assumes "requests_get env (trace s) nominatim_url (get_bbox_params loc) = Inr cands"
    and "cands = [] \<or> boundingbox (hd cands) = None"
  shows "get_bbox env s loc =
       (Inl (if cands = [] then IndexError else KeyError),
        emit (HttpGet nominatim_url (get_bbox_params loc)) s)
     \<and> ingest_loop env s mode dry_run (loc # rest) =
       (Inl (if cands = [] then IndexError else KeyError),
        emit (HttpGet nominatim_url (get_bbox_params loc)) s)
     \<and> trace (snd (ingest_loop env s mode dry_run (loc # rest))) =
         trace s @ [HttpGet nominatim_url (get_bbox_params loc)]
     \<and> files (snd (ingest_loop env s mode dry_run (loc # rest))) = files s"
  using get_bbox_raises [OF assms]
  by (simp add: ingest_location_def ingest_fetch_def emit_def)

text \<open>A place the geocoder does not know, first of two locations.\<close>

theorem get_bbox_no_candidate_witness:
  "requests_get (example_env\<lparr>requests_get := \<lambda>tr url params. Inr []\<rparr>) (trace initial)
       nominatim_url (get_bbox_params (LocStr ''Atlantis'')) = Inr []
   \<and> ingest_loop (example_env\<lparr>requests_get := \<lambda>tr url params. Inr []\<rparr>) initial ''history'' False
        [LocStr ''Atlantis'', LocTuple ''Atlanta'' ''Georgia''] =
       (Inl IndexError,
        \<lparr>trace = [HttpGet nominatim_url
                    [(''q'', PStr ''Atlantis''), (''format'', PStr ''json''), (''limit'', PInt 1)]],
         files = Map.empty\<rparr>)"
proof -
  let ?env = "example_env\<lparr>requests_get := \<lambda>tr url params. Inr []\<rparr>"
  have h: "requests_get ?env (trace initial) nominatim_url (get_bbox_params (LocStr ''Atlantis'')) = Inr []"
    by simp
  from get_bbox_no_candidate [OF h, of "''history''" False "[LocTuple ''Atlanta'' ''Georgia'']"] h
  show ?thesis
    by (simp add: emit_def initial_def get_bbox_params_def)
qed

text \<open>
  C5 as stated fails: the exception is an IndexError, or a KeyError, not a
  ResolutionError.
\<close>

theorem get_bbox_counterexample:
  "fst (get_bbox (example_env\<lparr>requests_get := \<lambda>tr url params. Inr []\<rparr>) initial
          (LocStr ''Atlantis'')) = Inl IndexError
   \<and> class_name IndexError \<noteq> ''ResolutionError''
   \<and> fst (get_bbox (example_env\<lparr>requests_get := \<lambda>tr url params. Inr [\<lparr>boundingbox = None\<rparr>]\<rparr>)
          initial (LocStr ''Atlantis'')) = Inl KeyError
   \<and> class_name KeyError \<noteq> ''ResolutionError''"
  by (simp add: get_bbox_def Let_def)

subsection \<open>The file and the connection\<close>

lemma ingest_load_upload:
  assumes "upload_to_snowflake env
             (emit (FileWrite (json_path env (trace s) mode loc))
                (s\<lparr>files := (files s)(json_path env (trace s) mode loc
                     \<mapsto> concat (map (map (to_record (astype_str env) mode)) dfs))\<rparr>))
             (json_path env (trace s) mode loc) = (r, s2)"
  shows "ingest_load env s mode False loc dfs =
     (case r of
        Inl e \<Rightarrow> (Inl e, s2)
      | Inr _ \<Rightarrow>
          (Inr (), emit (FileRemove (json_path env (trace s) mode loc))
                     (s2\<lparr>files := (files s2)(json_path env (trace s) mode loc := None)\<rparr>)))"
    and "files s2 (json_path env (trace s) mode loc)
           = Some (concat (map (map (to_record (astype_str env) mode)) dfs))"
proof -
  let ?p = "json_path env (trace s) mode loc"
  let ?lines = "concat (map (map (to_record (astype_str env) mode)) dfs)"
  let ?s1 = "emit (FileWrite ?p) (s\<lparr>files := (files s)(?p \<mapsto> ?lines)\<rparr>)"
  from upload_to_snowflake_state [of env ?s1 ?p] assms have "files s2 = files ?s1"
    by auto
  then show f: "files s2 ?p = Some ?lines"
    by (simp add: emit_def)
  then have "os_remove s2 ?p = (Inr (), emit (FileRemove ?p) (s2\<lparr>files := (files s2)(?p := None)\<rparr>))"
    by (rule os_remove_present)
  with assms show "ingest_load env s mode False loc dfs =
     (case r of
        Inl e \<Rightarrow> (Inl e, s2)
      | Inr _ \<Rightarrow> (Inr (), emit (FileRemove ?p) (s2\<lparr>files := (files s2)(?p := None)\<rparr>)))"
    by (simp add: ingest_load_def responses_to_json_eq split: sum.splits)
qed

lemma ingest_files_closed:
  assumes "snowflake env (trace s0) Connect = None"
  shows "files (snd (ingest env s0 mode locations False)) =
       files (snd (ingest_loop env (emit (Snowflake Connect) s0) mode False
                     (case locations of None \<Rightarrow> LOCATIONS | Some ls \<Rightarrow> ls)))"
  using assms
  by (auto simp: ingest_def sf_def emit_def Let_def split: prod.splits option.splits)

lemma ingest_raises:
  assumes "snowflake env (trace s0) Connect = None"
    and "fst (ingest_loop env (emit (Snowflake Connect) s0) mode False
                     (case locations of None \<Rightarrow> LOCATIONS | Some ls \<Rightarrow> ls)) = Inl e"
  shows "\<exists>e'. fst (ingest env s0 mode locations False) = Inl e'"
  using assms
  by (auto simp: ingest_def sf_def emit_def Let_def split: prod.splits option.splits)

lemma ingest_fetch_snowflake:
  "ingest_fetch (env\<lparr>snowflake := f\<rparr>) s mode loc = ingest_fetch env s mode loc"
proof -
  have "get_bbox (env\<lparr>snowflake := f\<rparr>) t l = get_bbox env t l" for t l
    by (simp add: get_bbox_def)
  moreover have "get_grid_points (env\<lparr>snowflake := f\<rparr>) t b = get_grid_points env t b" for t b
    by (simp add: get_grid_points_def)
  moreover have "get_weather (env\<lparr>snowflake := f\<rparr>) t la lo m = get_weather env t la lo m"
    for t la lo m
    by (simp add: get_weather_def)
  ultimately show ?thesis
    by (simp add: ingest_fetch_def split: prod.splits sum.splits)
qed

lemma failing_fetch:
  "\<exists>dfs s'. ingest_fetch failing_env s mode loc = (Inr dfs, s')"
  using example_fetch [of s mode loc] by (simp add: failing_env_def ingest_fetch_snowflake)

lemma failing_upload:
  "\<exists>s'. upload_to_snowflake failing_env s p = (Inl (External ''ProgrammingError''), s')"
  by (simp add: upload_to_snowflake_def upload_statements_def sf_def failing_env_def)

lemma example_upload:
  "\<exists>s'. upload_to_snowflake example_env s p = (Inr (), s') \<and> files s' = files s"
  by (simp add: upload_to_snowflake_def upload_statements_def sf_def example_env_def emit_def)

lemma ingest_result_closed:
  assumes "snowflake env (trace s0) Connect = None" and "\<And>tr. snowflake env tr Close = None"
  shows "fst (ingest env s0 mode locations False) =
       fst (ingest_loop env (emit (Snowflake Connect) s0) mode False
              (case locations of None \<Rightarrow> LOCATIONS | Some ls \<Rightarrow> ls))"
  using assms
  by (auto simp: ingest_def sf_def emit_def Let_def split: prod.splits option.splits)

lemma failing_run:
  "fst (ingest failing_env initial ''history''
          (Some [LocTuple ''Atlanta'' ''Georgia'', LocTuple ''New York'' ''New York'']) False)
     = Inl (External ''ProgrammingError'')"
proof -
  let ?s = "emit (Snowflake Connect) initial"
  let ?loc = "LocTuple ''Atlanta'' ''Georgia''"
  have c: "snowflake failing_env tr Connect = None" "snowflake failing_env tr Close = None" for tr
    by (simp_all add: failing_env_def)
  from failing_fetch [of ?s "''history''" ?loc] obtain dfs s1 where
    f: "ingest_fetch failing_env ?s ''history'' ?loc = (Inr dfs, s1)"
    by blast
  let ?p = "json_path failing_env (trace s1) ''history'' ?loc"
  let ?s2 = "emit (FileWrite ?p)
      (s1\<lparr>files := (files s1)(?p \<mapsto> concat (map (map (to_record (astype_str failing_env) ''history'')) dfs))\<rparr>)"
  from failing_upload [of ?s2 ?p] obtain s3 where
    u: "upload_to_snowflake failing_env ?s2 ?p = (Inl (External ''ProgrammingError''), s3)"
    by blast
  from ingest_load_upload(1) [OF u] f
  have "ingest_location failing_env ?s ''history'' False ?loc = (Inl (External ''ProgrammingError''), s3)"
    by (simp add: ingest_location_def)
  then have "fst (ingest_loop failing_env ?s ''history'' False
      [?loc, LocTuple ''New York'' ''New York'']) = Inl (External ''ProgrammingError'')"
    by simp
  with ingest_result_closed [of failing_env initial "''history''"
      "Some [?loc, LocTuple ''New York'' ''New York'']"] c
  show ?thesis by simp
qed

text \<open>
  C7. Take an iteration whose requests and normalization succeed. The batch is written
  to its path. In a dry run the iteration then removes the file and returns. Otherwise,
  when the load returns, the file is removed after it; when the load raises, the
  iteration and the loop stop with that exception in the state the load left, where the
  file still holds the batch, and so it does at the end of a run whose connection was
  opened for this loop: \<open>finally\<close> only closes the connection.
\<close>

theorem batch_file_lifecycle:
  assumes "ingest_fetch env s mode loc = (Inr dfs, s1)"
  shows "let p = json_path env (trace s1) mode loc;
             lines = concat (map (map (to_record (astype_str env) mode)) dfs);
             s2 = emit (FileWrite p) (s1\<lparr>files := (files s1)(p \<mapsto> lines)\<rparr>)
         in responses_to_json env s1 dfs (label_of loc) mode = (p, s2)
          \<and> ingest_location env s mode True loc =
              (Inr (), emit (FileRemove p) (s2\<lparr>files := (files s2)(p := None)\<rparr>))
          \<and> (\<forall>s3. upload_to_snowflake env s2 p = (Inr (), s3) \<longrightarrow>
                ingest_location env s mode False loc =
                  (Inr (), emit (FileRemove p) (s3\<lparr>files := (files s3)(p := None)\<rparr>)))
          \<and> (\<forall>e s3. upload_to_snowflake env s2 p = (Inl e, s3) \<longrightarrow>
                ingest_location env s mode False loc = (Inl e, s3)
                \<and> ingest_loop env s mode False (loc # rest) = (Inl e, s3)
                \<and> files s3 p = Some lines
                \<and> (\<forall>s0. snowflake env (trace s0) Connect = None
                        \<and> s = emit (Snowflake Connect) s0 \<longrightarrow>
                      (\<exists>e'. fst (ingest env s0 mode (Some (loc # rest)) False) = Inl e')
                      \<and> files (snd (ingest env s0 mode (Some (loc # rest)) False)) p
                          = Some lines))"
proof -
  define p where "p = json_path env (trace s1) mode loc"
  define lines where "lines = concat (map (map (to_record (astype_str env) mode)) dfs)"
  define s2 where "s2 = emit (FileWrite p) (s1\<lparr>files := (files s1)(p \<mapsto> lines)\<rparr>)"
  have ser: "responses_to_json env s1 dfs (label_of loc) mode = (p, s2)"
    by (simp add: responses_to_json_eq p_def lines_def s2_def)
  have dry: "ingest_location env s mode True loc =
      (Inr (), emit (FileRemove p) (s2\<lparr>files := (files s2)(p := None)\<rparr>))"
    using assms
    by (simp add: ingest_location_def ingest_load_dry p_def s2_def emit_def)
  have ok: "ingest_location env s mode False loc =
      (Inr (), emit (FileRemove p) (s3\<lparr>files := (files s3)(p := None)\<rparr>))"
    if "upload_to_snowflake env s2 p = (Inr (), s3)" for s3
    using assms ingest_load_upload(1) [OF that [unfolded s2_def p_def lines_def]]
    by (simp add: ingest_location_def p_def)
  have bad: "ingest_location env s mode False loc = (Inl e, s3)
      \<and> ingest_loop env s mode False (loc # rest) = (Inl e, s3)
      \<and> files s3 p = Some lines
      \<and> (\<forall>s0. snowflake env (trace s0) Connect = None \<and> s = emit (Snowflake Connect) s0 \<longrightarrow>
            (\<exists>e'. fst (ingest env s0 mode (Some (loc # rest)) False) = Inl e')
            \<and> files (snd (ingest env s0 mode (Some (loc # rest)) False)) p = Some lines)"
    if u: "upload_to_snowflake env s2 p = (Inl e, s3)" for e s3
  proof -
    from assms ingest_load_upload(1) [OF u [unfolded s2_def p_def lines_def]]
    have l: "ingest_location env s mode False loc = (Inl e, s3)"
      by (simp add: ingest_location_def)
    then have lp: "ingest_loop env s mode False (loc # rest) = (Inl e, s3)"
      by simp
    from ingest_load_upload(2) [OF u [unfolded s2_def p_def lines_def]]
    have f: "files s3 p = Some lines"
      by (simp add: p_def lines_def)
    have "(\<exists>e'. fst (ingest env s0 mode (Some (loc # rest)) False) = Inl e')
        \<and> files (snd (ingest env s0 mode (Some (loc # rest)) False)) p = Some lines"
      if "snowflake env (trace s0) Connect = None" "s = emit (Snowflake Connect) s0" for s0
      using ingest_files_closed [OF that(1), of mode "Some (loc # rest)"]
        ingest_raises [OF that(1), of mode "Some (loc # rest)" e] lp f that(2)
      by simp
    with l lp f show ?thesis by blast
  qed
  from ser dry ok bad show ?thesis
    unfolding Let_def p_def [symmetric] lines_def [symmetric] s2_def [symmetric]
    by blast
qed

text \<open>
  A run whose PUT is rejected, and the iteration for Atlanta with a warehouse that
  accepts and in a dry run.
\<close>

theorem batch_file_lifecycle_witness:
  "(\<exists>dfs s1. ingest_fetch failing_env (emit (Snowflake Connect) initial) ''history''
        (LocTuple ''Atlanta'' ''Georgia'') = (Inr dfs, s1))
   \<and> fst (ingest failing_env initial ''history''
          (Some [LocTuple ''Atlanta'' ''Georgia'', LocTuple ''New York'' ''New York'']) False)
       = Inl (External ''ProgrammingError'')
   \<and> (\<exists>p lines. files (snd (ingest failing_env initial ''history''
          (Some [LocTuple ''Atlanta'' ''Georgia'', LocTuple ''New York'' ''New York'']) False)) p
         = Some lines)
   \<and> fst (ingest_location example_env initial ''history'' False (LocTuple ''Atlanta'' ''Georgia''))
       = Inr ()
   \<and> files (snd (ingest_location example_env initial ''history'' False
        (LocTuple ''Atlanta'' ''Georgia''))) = Map.empty
   \<and> ingest_location example_env initial ''history'' True (LocTuple ''Atlanta'' ''Georgia'')
       = (Inr (),
          \<lparr>trace =
             [HttpGet nominatim_url (get_bbox_params (LocTuple ''Atlanta'' ''Georgia'')),
              WeatherApi forecast_url
                (grid_params \<lparr>south_lat = ''33.6'', north_lat = ''33.9'', west_lon = ''-84.6'',
                               east_lon = ''-84.3''\<rparr>),
              WeatherApi forecast_url (get_weather_params [33] [- 84] ''history''),
              FileWrite ''/tmp/Atlanta_Georgia_history_20240309_070503.json'',
              FileRemove ''/tmp/Atlanta_Georgia_history_20240309_070503.json''],
           files = Map.empty\<rparr>)"
proof -
  let ?s = "emit (Snowflake Connect) initial"
  let ?loc = "LocTuple ''Atlanta'' ''Georgia''"
  let ?rest = "[LocTuple ''New York'' ''New York'']"
  have c: "snowflake failing_env (trace initial) Connect = None"
    by (simp add: failing_env_def)
  from failing_fetch [of ?s "''history''" ?loc] obtain dfs s1 where
    f: "ingest_fetch failing_env ?s ''history'' ?loc = (Inr dfs, s1)"
    by blast
  let ?p = "json_path failing_env (trace s1) ''history'' ?loc"
  let ?lines = "concat (map (map (to_record (astype_str failing_env) ''history'')) dfs)"
  let ?s2 = "emit (FileWrite ?p) (s1\<lparr>files := (files s1)(?p \<mapsto> ?lines)\<rparr>)"
  from failing_upload [of ?s2 ?p] obtain s3 where
    u: "upload_to_snowflake failing_env ?s2 ?p = (Inl (External ''ProgrammingError''), s3)"
    by blast
  from batch_file_lifecycle [OF f, of ?rest] u c
  have 1: "files (snd (ingest failing_env initial ''history'' (Some (?loc # ?rest)) False)) ?p
      = Some ?lines"
    by (simp add: Let_def)
  from example_fetch [of initial "''history''" ?loc] obtain dfs' s1' where
    f': "ingest_fetch example_env initial ''history'' ?loc = (Inr dfs', s1')"
    by blast
  let ?p' = "json_path example_env (trace s1') ''history'' ?loc"
  let ?lines' = "concat (map (map (to_record (astype_str example_env) ''history'')) dfs')"
  let ?s2' = "emit (FileWrite ?p') (s1'\<lparr>files := (files s1')(?p' \<mapsto> ?lines')\<rparr>)"
  from example_upload [of ?s2' ?p'] obtain s3' where
    u': "upload_to_snowflake example_env ?s2' ?p' = (Inr (), s3')" "files s3' = files ?s2'"
    by blast
  from ingest_fetch_state [of example_env initial "''history''" ?loc] f'
  have e: "files s1' = Map.empty" by (auto simp: initial_def)
  from batch_file_lifecycle [OF f', of ?rest] u'(1)
  have "ingest_location example_env initial ''history'' False ?loc =
      (Inr (), emit (FileRemove ?p') (s3'\<lparr>files := (files s3')(?p' := None)\<rparr>))"
    by (simp add: Let_def)
  with u'(2) e have 2: "fst (ingest_location example_env initial ''history'' False ?loc) = Inr ()"
    "files (snd (ingest_location example_env initial ''history'' False ?loc)) = Map.empty"
    by (simp_all add: emit_def)
  have f'': "ingest_fetch example_env initial ''history'' ?loc =
      (Inr dfs', \<lparr>trace =
             [HttpGet nominatim_url (get_bbox_params ?loc),
              WeatherApi forecast_url
                (grid_params \<lparr>south_lat = ''33.6'', north_lat = ''33.9'', west_lon = ''-84.6'',
                               east_lon = ''-84.3''\<rparr>),
              WeatherApi forecast_url (get_weather_params [33] [- 84] ''history'')],
           files = Map.empty\<rparr>)"
  proof -
    have ll: "Latitude example_response = 33" "Longitude example_response = - 84"
      by (simp_all add: example_response_def)
    from f' show ?thesis
      by (auto simp: ingest_fetch_def get_bbox_def get_grid_points_def get_weather_def Let_def
          example_env_def example_parse emit_def initial_def ll split: if_splits)
  qed
  with f' have s1': "s1' = \<lparr>trace =
             [HttpGet nominatim_url (get_bbox_params ?loc),
              WeatherApi forecast_url
                (grid_params \<lparr>south_lat = ''33.6'', north_lat = ''33.9'', west_lon = ''-84.6'',
                               east_lon = ''-84.3''\<rparr>),
              WeatherApi forecast_url (get_weather_params [33] [- 84] ''history'')],
           files = Map.empty\<rparr>"
    by simp
  have p': "?p' = ''/tmp/Atlanta_Georgia_history_20240309_070503.json''"
    unfolding s1'
    by (simp add: json_path_def example_env_def path_join_def filename_def label_of_def
        safe_label_def strftime_def pad2_def dec.simps digit_def)
  from batch_file_lifecycle [OF f', of ?rest]
  have 3: "ingest_location example_env initial ''history'' True ?loc =
      (Inr (), emit (FileRemove ?p') (?s2'\<lparr>files := (files ?s2')(?p' := None)\<rparr>))"
    by (simp add: Let_def)
  have 4: "emit (FileRemove ?p') (?s2'\<lparr>files := (files ?s2')(?p' := None)\<rparr>) =
      \<lparr>trace =
             [HttpGet nominatim_url (get_bbox_params ?loc),
              WeatherApi forecast_url
                (grid_params \<lparr>south_lat = ''33.6'', north_lat = ''33.9'', west_lon = ''-84.6'',
                               east_lon = ''-84.3''\<rparr>),
              WeatherApi forecast_url (get_weather_params [33] [- 84] ''history''),
              FileWrite ''/tmp/Atlanta_Georgia_history_20240309_070503.json'',
              FileRemove ''/tmp/Atlanta_Georgia_history_20240309_070503.json''],
           files = Map.empty\<rparr>"
    unfolding p' by (simp add: s1' emit_def)
  from f 1 2 3 4 failing_run show ?thesis
    by (simp only:) blast
qed

lemma ingest_location_quiet:
  "\<exists>evs. trace (snd (ingest_location env s mode dry_run loc)) = trace s @ evs
     \<and> Snowflake Connect \<notin> set evs \<and> Snowflake Close \<notin> set evs"
proof (cases dry_run)
  case True
  obtain r s' where l: "ingest_location env s mode True loc = (r, s')"
    by (cases "ingest_location env s mode True loc")
  from ingest_location_dry [OF l] obtain evs where
    evs: "list_all is_request evs"
      "case r of
        Inl e \<Rightarrow> trace s' = trace s @ evs \<and> files s' = files s
      | Inr _ \<Rightarrow>
          trace s' =
            trace s @ evs @ [FileWrite (json_path env (trace s @ evs) mode loc),
                             FileRemove (json_path env (trace s @ evs) mode loc)]
          \<and> files s' = (files s)(json_path env (trace s @ evs) mode loc := None)"
    by blast
  from evs(1) request_events have "\<forall>c. Snowflake c \<notin> set evs" by blast
  with evs(2) l True show ?thesis
    by (cases r) auto
next
  case False
  obtain r1 s1 where f: "ingest_fetch env s mode loc = (r1, s1)"
    by (cases "ingest_fetch env s mode loc")
  with ingest_fetch_state [of env s mode loc] obtain evs1 where
    evs1: "trace s1 = trace s @ evs1" "list_all is_request evs1"
    by auto
  from evs1(2) request_events have q1: "\<forall>c. Snowflake c \<notin> set evs1" by blast
  show ?thesis
  proof (cases r1)
    case (Inl e)
    with f evs1 q1 False show ?thesis
      by (intro exI [of _ evs1]) (simp add: ingest_location_def)
  next
    case (Inr dfs)
    let ?p = "json_path env (trace s1) mode loc"
    let ?s2 = "emit (FileWrite ?p)
        (s1\<lparr>files := (files s1)(?p \<mapsto> concat (map (map (to_record (astype_str env) mode)) dfs))\<rparr>)"
    obtain r s3 where u: "upload_to_snowflake env ?s2 ?p = (r, s3)"
      by (cases "upload_to_snowflake env ?s2 ?p")
    with upload_to_snowflake_state [of env ?s2 ?p] obtain evs2 where
      evs2: "trace s3 = trace ?s2 @ evs2" "list_all is_cursor_call evs2"
      by auto
    from evs2(2) cursor_events
    have q2: "Snowflake Connect \<notin> set evs2" "Snowflake Close \<notin> set evs2"
      by blast+
    from ingest_load_upload(1) [OF u] f Inr False
    have l: "ingest_location env s mode dry_run loc =
       (case r of
          Inl e \<Rightarrow> (Inl e, s3)
        | Inr _ \<Rightarrow> (Inr (), emit (FileRemove ?p) (s3\<lparr>files := (files s3)(?p := None)\<rparr>)))"
      by (simp add: ingest_location_def)
    show ?thesis
    proof (cases r)
      case (Inl e)
      with l evs1(1) evs2(1) q1 q2 show ?thesis
        by (intro exI [of _ "evs1 @ FileWrite ?p # evs2"]) (simp add: emit_def)
    next
      case (Inr u)
      with l evs1(1) evs2(1) q1 q2 show ?thesis
        by (intro exI [of _ "evs1 @ FileWrite ?p # evs2 @ [FileRemove ?p]"]) (simp add: emit_def)
    qed
  qed
qed

lemma ingest_loop_quiet:
  "\<exists>evs. trace (snd (ingest_loop env s mode dry_run locs)) = trace s @ evs
     \<and> Snowflake Connect \<notin> set evs \<and> Snowflake Close \<notin> set evs"
proof (induction locs arbitrary: s)
  case Nil
  show ?case by simp
next
  case (Cons loc locs)
  obtain r s1 where l: "ingest_location env s mode dry_run loc = (r, s1)"
    by (cases "ingest_location env s mode dry_run loc")
  with ingest_location_quiet [of env s mode dry_run loc] obtain evs1 where
    evs1: "trace s1 = trace s @ evs1" "Snowflake Connect \<notin> set evs1" "Snowflake Close \<notin> set evs1"
    by auto
  show ?case
  proof (cases r)
    case (Inl e)
    with l evs1 show ?thesis
      by (intro exI [of _ evs1]) simp
  next
    case (Inr u)
    from Cons.IH [of s1] obtain evs2 where
      evs2: "trace (snd (ingest_loop env s1 mode dry_run locs)) = trace s1 @ evs2"
        "Snowflake Connect \<notin> set evs2" "Snowflake Close \<notin> set evs2"
      by blast
    with l Inr evs1 show ?thesis
      by (intro exI [of _ "evs1 @ evs2"]) simp
  qed
qed

text \<open>
  C6. Outside dry-run mode the first thing \<open>ingest\<close> does is to ask for a connection.
  When that raises, the run ends there with nothing to close. When it succeeds, the
  events of the run are that one connect, the events of the loop, among which there is
  no connect and no close, and one close at the very end, whatever the loop returned
  or raised.
\<close>

theorem ingest_connection_lifecycle:
  "(\<forall>e. snowflake env (trace s) Connect = Some e \<longrightarrow>
      ingest env s mode locations False = (Inl e, emit (Snowflake Connect) s))
   \<and> (snowflake env (trace s) Connect = None \<longrightarrow>
       (\<exists>evs. trace (snd (ingest env s mode locations False)) =
                 trace s @ [Snowflake Connect] @ evs @ [Snowflake Close]
          \<and> Snowflake Connect \<notin> set evs \<and> Snowflake Close \<notin> set evs))"
proof -
  let ?locs = "case locations of None \<Rightarrow> LOCATIONS | Some ls \<Rightarrow> ls"
  let ?s1 = "emit (Snowflake Connect) s"
  have refused: "ingest env s mode locations False = (Inl e, ?s1)"
    if "snowflake env (trace s) Connect = Some e" for e
    using that by (simp add: ingest_def sf_def)
  have opened: "\<exists>evs. trace (snd (ingest env s mode locations False)) =
                 trace s @ [Snowflake Connect] @ evs @ [Snowflake Close]
          \<and> Snowflake Connect \<notin> set evs \<and> Snowflake Close \<notin> set evs"
    if c: "snowflake env (trace s) Connect = None"
  proof -
    obtain r s2 where lp: "ingest_loop env ?s1 mode False ?locs = (r, s2)"
      by (cases "ingest_loop env ?s1 mode False ?locs")
    with ingest_loop_quiet [of env ?s1 mode False ?locs] obtain evs where
      evs: "trace s2 = trace ?s1 @ evs" "Snowflake Connect \<notin> set evs" "Snowflake Close \<notin> set evs"
      by auto
    from c lp have "trace (snd (ingest env s mode locations False)) = trace s2 @ [Snowflake Close]"
      by (simp add: ingest_def sf_def emit_def Let_def split: option.splits)
    with evs show ?thesis
      by (intro exI [of _ evs]) (simp add: emit_def)
  qed
  from refused opened show ?thesis by blast
qed

text \<open>A run that aborts in the load of its first location.\<close>

theorem ingest_connection_lifecycle_witness:
  "snowflake failing_env (trace initial) Connect = None
   \<and> fst (ingest failing_env initial ''history''
          (Some [LocTuple ''Atlanta'' ''Georgia'', LocTuple ''New York'' ''New York'']) False)
       = Inl (External ''ProgrammingError'')
   \<and> (\<exists>evs. trace (snd (ingest failing_env initial ''history''
          (Some [LocTuple ''Atlanta'' ''Georgia'', LocTuple ''New York'' ''New York'']) False))
         = Snowflake Connect # evs @ [Snowflake Close]
        \<and> Snowflake Connect \<notin> set evs \<and> Snowflake Close \<notin> set evs)"
proof -
  have c: "snowflake failing_env (trace initial) Connect = None"
    by (simp add: failing_env_def)
  from ingest_connection_lifecycle [of failing_env initial "''history''"
      "Some [LocTuple ''Atlanta'' ''Georgia'', LocTuple ''New York'' ''New York'']"] c
  have "\<exists>evs. trace (snd (ingest failing_env initial ''history''
          (Some [LocTuple ''Atlanta'' ''Georgia'', LocTuple ''New York'' ''New York'']) False))
         = Snowflake Connect # evs @ [Snowflake Close]
        \<and> Snowflake Connect \<notin> set evs \<and> Snowflake Close \<notin> set evs"
    by (simp add: initial_def)
  with c failing_run show ?thesis by blast
qed

end
